theory Spec2Isabelle
  imports Complex_Main "HOL-Library.Sublist"
begin

section \<open>Python values, exceptions and observable effects\<close>

text \<open>
  The four scripts talk to three external services (the embedding service, the vector
  index and the chat model) and report through \<^verbatim>\<open>print\<close>. A Python exception is a
  value of \<open>exn\<close> carrying its message (what \<^verbatim>\<open>f"{e}"\<close> prints); a function that can
  raise returns \<open>exn + 'a\<close>. What a run does to the outside world is a list of
  \<open>effect\<close>s, oldest first: every printed line and every request that leaves the
  process.
\<close>

datatype exn =
    TypeError string
  | KeyError string
  | IndexError string
  | AttributeError string
  | ValueError string
  | ServiceError string

fun str_exn :: "exn \<Rightarrow> string" where
  "str_exn (TypeError m) = m"
| "str_exn (KeyError m) = m"
| "str_exn (IndexError m) = m"
| "str_exn (AttributeError m) = m"
| "str_exn (ValueError m) = m"
| "str_exn (ServiceError m) = m"

type_synonym embedding = "real list"

text \<open>
  What unpickling a file or reading a payload can give: the cache and the payloads are
  untyped Python data. A dict is the list of its items, looked up with \<open>map_of\<close>.
\<close>

datatype pyval =
    PyNone
  | PyStr string
  | PyFloat real
  | PyList "pyval list"
  | PyDict "(string \<times> pyval) list"

text \<open>\<^verbatim>\<open>models.PointStruct(id=..., vector=..., payload=...)\<close> and \<^verbatim>\<open>models.Distance\<close>.\<close>

record point =
  point_id :: string
  vector :: pyval
  payload :: "(string \<times> pyval) list"

datatype distance = Cosine | Euclid | Dot | Manhattan

datatype effect =
    Print string
  | EmbeddingsCreate string string
  | Sleep
  | RecreateCollection string nat distance
  | GetCollection string
  | Upsert string "point list"
  | CountPoints string
  | QueryPoints string embedding nat
  | ChatCreate string "(string \<times> string) list"

text \<open>
  How a script ends a step: it goes on with a value, it calls \<^verbatim>\<open>exit()\<close>, or an
  exception that nothing catches ends it.
\<close>

datatype 'a outcome = Continue 'a | Exit | Crash exn

text \<open>Decimal rendering of a number inside an f-string.\<close>

definition digit_char :: "nat \<Rightarrow> char" where
  "digit_char d = ''0123456789'' ! d"

fun show_nat :: "nat \<Rightarrow> string" where
  "show_nat n = (if n < 10 then [digit_char n] else show_nat (n div 10) @ [digit_char (n mod 10)])"

declare show_nat.simps [simp del]

definition quote :: "string \<Rightarrow> string" where
  "quote s = [CHR 0x27] @ s @ [CHR 0x27]"

definition newline :: char where
  "newline = CHR 0x0A"

section \<open>generate\_embeddings.py: the embedding loop\<close>

text \<open>
  \<^verbatim>\<open>client.embeddings.create(input=chunk, model=model)\<close> either raises or returns a
  response whose \<^verbatim>\<open>data\<close> is a list of embeddings. The service is free to answer each
  request differently, so it is a function of the request's number in the run as well
  as of its input and model.
\<close>

type_synonym embeddings_api = "nat \<Rightarrow> string \<Rightarrow> string \<Rightarrow> exn + embedding list"

text \<open>\<^verbatim>\<open>response.data[0].embedding\<close>: an empty \<^verbatim>\<open>data\<close> raises IndexError.\<close>

definition first_embedding :: "embedding list \<Rightarrow> exn + embedding" where
  "first_embedding data =
     (case data of [] \<Rightarrow> Inl (IndexError ''list index out of range'') | e # _ \<Rightarrow> Inr e)"

definition request_embedding :: "embeddings_api \<Rightarrow> nat \<Rightarrow> string \<Rightarrow> string \<Rightarrow> exn + embedding" where
  "request_embedding api i chunk model =
     (case api i chunk model of Inl e \<Rightarrow> Inl e | Inr data \<Rightarrow> first_embedding data)"

text \<open>
  The body of the \<^verbatim>\<open>for i, chunk in enumerate(chunks)\<close> loop of
  \<^verbatim>\<open>generate_embeddings\<close>: \<open>n\<close> is \<^verbatim>\<open>len(chunks)\<close>, \<open>i\<close> the index of the next chunk,
  \<open>embeddings\<close> the list built so far and \<open>tr\<close> the effects so far. The \<^verbatim>\<open>try\<close>
  appends the vector, prints and sleeps (\<^verbatim>\<open>time.sleep(0.1)\<close>); the
  \<^verbatim>\<open>except Exception\<close> prints and appends \<^verbatim>\<open>None\<close>. Only the request and the
  reading of its response can raise; printing and sleeping do not.
\<close>

fun embed_loop ::
  "embeddings_api \<Rightarrow> string \<Rightarrow> nat \<Rightarrow> nat \<Rightarrow> string list \<Rightarrow> embedding option list \<Rightarrow> effect list
     \<Rightarrow> embedding option list \<times> effect list" where
  "embed_loop api model n i [] embeddings tr = (embeddings, tr)"
| "embed_loop api model n i (chunk # rest) embeddings tr =
     (case request_embedding api i chunk model of
        Inr v \<Rightarrow>
          embed_loop api model n (Suc i) rest (embeddings @ [Some v])
            (tr @ [EmbeddingsCreate chunk model,
                   Print (''Generated embedding for chunk '' @ show_nat (i + 1) @ ''/'' @ show_nat n),
                   Sleep])
      | Inl e \<Rightarrow>
          embed_loop api model n (Suc i) rest (embeddings @ [None])
            (tr @ [EmbeddingsCreate chunk model,
                   Print (''Error generating embedding for chunk '' @ show_nat (i + 1) @ '': '' @ str_exn e)]))"

definition embedding_banner :: string where
  "embedding_banner =
     [newline, newline] @ ''---------------------------- Embedding ----------------------------''"

definition generate_embeddings ::
  "embeddings_api \<Rightarrow> string list \<Rightarrow> string \<Rightarrow> embedding option list \<times> effect list" where
  "generate_embeddings api chunks model =
     (if chunks = [] then ([], [Print ''No chunks provided for embedding.''])
      else
        (let (embeddings, tr) =
               embed_loop api model (length chunks) 0 chunks []
                 [Print embedding_banner,
                  Print (''Generating embeddings for '' @ show_nat (length chunks)
                         @ '' chunks using model '' @ quote model @ ''...'')]
         in (embeddings, tr @ [Print ''Embedding generation complete.''])))"

text \<open>
  Lines 137--146 of the script: the embedding stage as the script runs it on a
  non-empty \<^verbatim>\<open>text_chunks\<close>. \<^verbatim>\<open>valid_embeddings\<close> keeps the entries that are
  not \<^verbatim>\<open>None\<close>, and only its length is printed.
\<close>

definition valid_embeddings :: "embedding option list \<Rightarrow> embedding list" where
  "valid_embeddings chunk_embeddings = [emb. Some emb \<leftarrow> chunk_embeddings]"

definition embedding_stage ::
  "embeddings_api \<Rightarrow> string list \<Rightarrow> string \<Rightarrow> embedding option list \<times> effect list" where
  "embedding_stage api text_chunks model =
     (if text_chunks = [] then ([], [])
      else
        (let (chunk_embeddings, tr) = generate_embeddings api text_chunks model
         in if chunk_embeddings \<noteq> []
            then (chunk_embeddings,
                  tr @ [Print (''Successfully generated ''
                               @ show_nat (length (valid_embeddings chunk_embeddings)) @ '' embeddings.'')])
            else (chunk_embeddings,
                  tr @ [Print ''Embedding generation failed or yielded no results.''])))"

text \<open>
  What the service's answer to request \<open>i\<close> means for position \<open>i\<close>, read off the
  service itself: the first vector of the answer, or \<open>None\<close> when the service raised or
  answered without data.
\<close>

definition embedded :: "embeddings_api \<Rightarrow> string \<Rightarrow> nat \<Rightarrow> string \<Rightarrow> embedding option" where
  "embedded api model i chunk =
     (case api i chunk model of
        Inl e \<Rightarrow> None
      | Inr [] \<Rightarrow> None
      | Inr (v # others) \<Rightarrow> Some v)"

text \<open>
  The lines of the output that carry a count or report a failure: the first message of
  \<^verbatim>\<open>generate_embeddings\<close> (how many chunks it was given), the script's message after
  it (how many entries are not \<^verbatim>\<open>None\<close>), and the line printed for one failed chunk.
\<close>

definition attempted_line :: "nat \<Rightarrow> string \<Rightarrow> effect" where
  "attempted_line n model =
     Print (''Generating embeddings for '' @ show_nat n @ '' chunks using model '' @ quote model @ ''...'')"

definition succeeded_line :: "nat \<Rightarrow> effect" where
  "succeeded_line n = Print (''Successfully generated '' @ show_nat n @ '' embeddings.'')"

definition is_embedding_error :: "effect \<Rightarrow> bool" where
  "is_embedding_error ef =
     (case ef of Print l \<Rightarrow> prefix ''Error generating embedding for chunk '' l | _ \<Rightarrow> False)"

section \<open>generate\_embeddings.py: the chunker\<close>

subsection \<open>The text splitter\<close>

text \<open>
  Modelled from the spec: \<^verbatim>\<open>chunk_text\<close> delegates to the text splitter
  \<^verbatim>\<open>RecursiveCharacterTextSplitter(chunk_size, chunk_overlap, length_function=len,
  add_start_index=True).split_text\<close>, which is imported and not part of the sources. The
  spec (4.1) describes it: the text is split recursively, preferring natural boundaries
  (paragraph, then line, then word, then character), so that no chunk exceeds the size,
  and consecutive chunks share up to \<open>overlap\<close> characters. The definitions below
  follow the splitter's documented algorithm with its defaults: the separators
  \<^verbatim>\<open>["\n\n", "\n", " ", ""]\<close>, separators kept at the start of the piece that follows
  them, and whitespace stripped from each chunk. Strings are lists of characters, and
  \<^verbatim>\<open>len\<close> is \<open>length\<close>.
\<close>

text \<open>\<^verbatim>\<open>str.isspace\<close> on the characters below 256, and \<^verbatim>\<open>str.strip()\<close>.\<close>

definition is_space :: "char \<Rightarrow> bool" where
  "is_space c \<longleftrightarrow>
     c \<in> {CHR 0x09, CHR 0x0A, CHR 0x0B, CHR 0x0C, CHR 0x0D, CHR 0x1C, CHR 0x1D, CHR 0x1E,
          CHR 0x1F, CHR 0x20, CHR 0x85, CHR 0xA0}"

definition py_strip :: "string \<Rightarrow> string" where
  "py_strip s = rev (dropWhile is_space (rev (dropWhile is_space s)))"

text \<open>
  \<^verbatim>\<open>re.split(separator, text)\<close> for a literal, non-empty separator: the pieces between
  the leftmost non-overlapping occurrences. \<open>cur\<close> is the piece being read.
\<close>

fun re_split :: "string \<Rightarrow> string \<Rightarrow> string \<Rightarrow> string list" where
  "re_split sep cur [] = [cur]"
| "re_split sep cur (c # cs) =
     (if sep \<noteq> [] \<and> prefix sep (c # cs)
      then cur # re_split sep [] (drop (length sep - 1) cs)
      else re_split sep (cur @ [c]) cs)"

text \<open>
  \<^verbatim>\<open>_split_text_with_regex(text, separator, keep_separator=True)\<close>: with a separator,
  the first piece followed by every later piece with the separator in front of it;
  with the empty separator, the characters of the text. Empty pieces are dropped.
\<close>

definition split_text_with_regex :: "string \<Rightarrow> string \<Rightarrow> string list" where
  "split_text_with_regex text separator =
     filter (\<lambda>s. s \<noteq> [])
       (if separator \<noteq> []
        then (case re_split separator [] text of
                [] \<Rightarrow> []
              | t0 # ts \<Rightarrow> t0 # map (\<lambda>t. separator @ t) ts)
        else map (\<lambda>c. [c]) text)"

text \<open>
  \<^verbatim>\<open>_join_docs(docs, "")\<close>: the concatenation, stripped; \<^verbatim>\<open>None\<close> when nothing is
  left, and then no chunk is appended.
\<close>

definition join_docs :: "string list \<Rightarrow> string option" where
  "join_docs docs = (let text = py_strip (concat docs) in if text = [] then None else Some text)"

definition append_doc :: "string list \<Rightarrow> string option \<Rightarrow> string list" where
  "append_doc docs doc = (case doc of None \<Rightarrow> docs | Some d \<Rightarrow> docs @ [d])"

text \<open>
  The \<^verbatim>\<open>while\<close> loop of \<^verbatim>\<open>_merge_splits\<close>, with the separator \<^verbatim>\<open>""\<close> that
  \<^verbatim>\<open>keep_separator=True\<close> passes (its length 0 left out of the sums): pieces are popped
  from the front of \<^verbatim>\<open>current_doc\<close> while more than \<open>chunk_overlap\<close> characters are
  kept, or while the next piece of length \<open>len\<close> still does not fit. \<open>tot\<close> is the
  library's \<^verbatim>\<open>total\<close>, the summed length of \<^verbatim>\<open>current_doc\<close> (lemma
  \<open>pop_docs_total\<close> below), so the loop's condition is false on an empty
  \<^verbatim>\<open>current_doc\<close> and \<^verbatim>\<open>current_doc[0]\<close> never raises.
\<close>

fun pop_docs :: "nat \<Rightarrow> nat \<Rightarrow> nat \<Rightarrow> string list \<Rightarrow> int \<Rightarrow> string list \<times> int" where
  "pop_docs chunk_size chunk_overlap len [] tot = ([], tot)"
| "pop_docs chunk_size chunk_overlap len (d # rest) tot =
     (if tot > int chunk_overlap \<or> (tot + int len > int chunk_size \<and> tot > 0)
      then pop_docs chunk_size chunk_overlap len rest (tot - int (length d))
      else (d # rest, tot))"

text \<open>
  The \<^verbatim>\<open>for d in splits\<close> loop of \<^verbatim>\<open>_merge_splits\<close> and the final join. A
  piece that would make the total exceed the chunk size, while \<^verbatim>\<open>current_doc\<close> is not
  empty, first emits the joined \<^verbatim>\<open>current_doc\<close> and pops from its front (the two
  nested \<^verbatim>\<open>if\<close>s of the library are one condition here); in every case the piece is
  then appended and counted. The library's warning for \<^verbatim>\<open>total > chunk_size\<close> goes
  to its logger, not to the script's output, and is left out.
\<close>

fun merge_loop :: "nat \<Rightarrow> nat \<Rightarrow> string list \<Rightarrow> string list \<Rightarrow> string list \<Rightarrow> int \<Rightarrow> string list" where
  "merge_loop chunk_size chunk_overlap [] docs current_doc tot =
     append_doc docs (join_docs current_doc)"
| "merge_loop chunk_size chunk_overlap (d # splits) docs current_doc tot =
     (if tot + int (length d) > int chunk_size \<and> current_doc \<noteq> []
      then
        (let docs1 = append_doc docs (join_docs current_doc);
             (current_doc1, tot1) = pop_docs chunk_size chunk_overlap (length d) current_doc tot
         in merge_loop chunk_size chunk_overlap splits docs1 (current_doc1 @ [d])
              (tot1 + int (length d)))
      else merge_loop chunk_size chunk_overlap splits docs (current_doc @ [d])
             (tot + int (length d)))"

definition merge_splits :: "nat \<Rightarrow> nat \<Rightarrow> string list \<Rightarrow> string list" where
  "merge_splits chunk_size chunk_overlap splits = merge_loop chunk_size chunk_overlap splits [] [] 0"

text \<open>
  The choice of the separator in \<^verbatim>\<open>_split_text\<close>: the first separator that is
  \<^verbatim>\<open>""\<close> or occurs in the text, with the separators after it for the recursion (none
  after \<^verbatim>\<open>""\<close>); when none is found, \<^verbatim>\<open>separators[-1]\<close> and no further separators.
  The list of separators is never empty: \<^verbatim>\<open>split_text\<close> passes the four defaults and
  the recursion only descends with a non-empty remainder.
\<close>

fun find_separator :: "string list \<Rightarrow> string \<Rightarrow> (string \<times> string list) option" where
  "find_separator [] text = None"
| "find_separator (s # rest) text =
     (if s = [] then Some ([], [])
      else if sublist s text then Some (s, rest)
      else find_separator rest text)"

definition choose_separator :: "string list \<Rightarrow> string \<Rightarrow> string \<times> string list" where
  "choose_separator separators text =
     (case find_separator separators text of Some r \<Rightarrow> r | None \<Rightarrow> (last separators, []))"

lemma find_separator_shorter:
  "find_separator separators text = Some (s, rest) \<Longrightarrow> length rest < length separators"
  by (induction separators) (auto split: if_splits)

lemma choose_separator_shorter:
  "snd (choose_separator separators text) = [] \<or>
   length (snd (choose_separator separators text)) < length separators"
  by (cases "find_separator separators text")
     (auto simp: choose_separator_def dest: find_separator_shorter)

text \<open>
  \<^verbatim>\<open>_split_text(text, separators)\<close> and its loop over the pieces: a piece shorter than
  the chunk size is collected in \<^verbatim>\<open>_good_splits\<close>; a longer one first flushes the
  collected pieces through \<^verbatim>\<open>_merge_splits\<close> and is then split again with the
  remaining separators, or kept whole when none remain.
\<close>

definition flush_good :: "nat \<Rightarrow> nat \<Rightarrow> string list \<Rightarrow> string list \<Rightarrow> string list" where
  "flush_good chunk_size chunk_overlap good final_chunks =
     (if good \<noteq> [] then final_chunks @ merge_splits chunk_size chunk_overlap good else final_chunks)"

function
  split_text_rec :: "nat \<Rightarrow> nat \<Rightarrow> string list \<Rightarrow> string \<Rightarrow> string list" and
  split_loop :: "nat \<Rightarrow> nat \<Rightarrow> string list \<Rightarrow> string list \<Rightarrow> string list \<Rightarrow> string list \<Rightarrow> string list"
where
  "split_text_rec chunk_size chunk_overlap separators text =
     split_loop chunk_size chunk_overlap (snd (choose_separator separators text))
       (split_text_with_regex text (fst (choose_separator separators text))) [] []"
| "split_loop chunk_size chunk_overlap new_separators [] good final_chunks =
     flush_good chunk_size chunk_overlap good final_chunks"
| "split_loop chunk_size chunk_overlap new_separators (s # splits) good final_chunks =
     (if length s < chunk_size
      then split_loop chunk_size chunk_overlap new_separators splits (good @ [s]) final_chunks
      else if new_separators = []
      then split_loop chunk_size chunk_overlap new_separators splits []
             (flush_good chunk_size chunk_overlap good final_chunks @ [s])
      else split_loop chunk_size chunk_overlap new_separators splits []
             (flush_good chunk_size chunk_overlap good final_chunks
              @ split_text_rec chunk_size chunk_overlap new_separators s))"
  by pat_completeness auto
termination
proof (relation "inv_image (less_than <*lex*> less_than)
    (\<lambda>x. case x of
       Inl (cs, co, separators, text) \<Rightarrow> (2 * length separators + 1, 0)
     | Inr (cs, co, new_separators, splits, good, final_chunks) \<Rightarrow>
         (if new_separators = [] then 0 else 2 * length new_separators + 2, length splits))",
    goal_cases)
  case 1
  show ?case by (intro wf_inv_image wf_lex_prod wf_less_than)
next
  case (2 chunk_size chunk_overlap separators t)
  then show ?case
    using choose_separator_shorter [of separators t] by auto
next
  case 3
  then show ?case by simp
next
  case 4
  then show ?case by simp
next
  case 5
  then show ?case by simp
next
  case 6
  then show ?case by simp
qed

definition default_separators :: "string list" where
  "default_separators = [[newline, newline], [newline], '' '', []]"

definition split_text :: "nat \<Rightarrow> nat \<Rightarrow> string \<Rightarrow> string list" where
  "split_text chunk_size chunk_overlap text =
     split_text_rec chunk_size chunk_overlap default_separators text"

subsection \<open>chunk\_text\<close>

text \<open>
  \<^verbatim>\<open>chunk_text(text, size, overlap)\<close>, with \<open>sz\<close> for the source's \<^verbatim>\<open>size\<close>: empty
  text gives the empty list; otherwise the splitter is constructed (its constructor
  raises ValueError when the overlap is larger than the size, and nothing in
  \<^verbatim>\<open>chunk_text\<close> catches it) and the function returns what \<^verbatim>\<open>split_text\<close>
  returns, a list of strings.
\<close>

definition chunk_text :: "string \<Rightarrow> nat \<Rightarrow> nat \<Rightarrow> (exn + string list) \<times> effect list" where
  "chunk_text text sz overlap =
     (if text = [] then (Inr [], [Print ''Error: No text provided for chunking.''])
      else
        (let tr = [Print (''Chunking text with chunk_size='' @ show_nat sz @ '', chunk_overlap=''
                          @ show_nat overlap @ ''...'')]
         in if overlap > sz
            then (Inl (ValueError (''Got a larger chunk overlap ('' @ show_nat overlap
                                   @ '') than chunk size ('' @ show_nat sz @ ''), should be smaller.'')), tr)
            else
              (let chunks = split_text sz overlap text
               in (Inr chunks,
                   tr @ [Print (''Successfully split text into '' @ show_nat (length chunks) @ '' chunks.'')]))))"

section \<open>vector\_store.py\<close>

subsection \<open>Python operations on untyped data\<close>





subsection \<open>load\_data\_from\_pickle\<close>





subsection \<open>The vector index\<close>

text \<open>
  Modelled from the spec: the vector index is an external service (spec 6: create a
  collection with a dimension and a distance, get a collection, upsert a batch of
  points, count), reached through a client library that is not part of the sources. A
  collection has its vector size, its distance and its points.
  \<^verbatim>\<open>recreate_collection\<close> is the client's call that drops the named collection when it
  exists and creates an empty one with the given configuration. How each request of a
  run goes is the environment's choice, recorded in \<open>qdrant_env\<close>: the connection, the
  recreate request (done, failed with the index untouched, or failed after the old
  collection was dropped), the get request, every upsert by the number of its batch,
  and the count. \<open>other_vectors\<close> is the verdict of the library's validation on a
  vector that is not a plain list of floats but has a form that some versions of the
  library know (see \<open>point_struct\<close> below). \<open>info_size\<close> is what reading
  \<^verbatim>\<open>collection_info.vectors_config.params.size\<close> gives on the object that
  \<^verbatim>\<open>get_collection\<close> returned: the size, or the exception of an attribute that the
  library's object does not have.
\<close>

record collection =
  vectors_size :: nat
  vectors_distance :: distance
  points :: "point list"

type_synonym index = "string \<Rightarrow> collection option"

datatype recreate_result = Recreated | FailedUntouched exn | FailedAfterDrop exn

record qdrant_env =
  qdrant_host :: string
  qdrant_port :: nat
  connect :: "exn option"
  recreate :: recreate_result
  get_info :: "exn option"
  info_size :: "collection \<Rightarrow> exn + nat"
  upsert :: "nat \<Rightarrow> exn option"
  count_points :: "exn option"
  other_vectors :: "pyval \<Rightarrow> exn option"

definition recreate_collection :: "qdrant_env \<Rightarrow> string \<Rightarrow> nat \<Rightarrow> distance \<Rightarrow> index \<Rightarrow> exn + index" where
  "recreate_collection nw name sz metric idx =
     (case recreate nw of
        Recreated \<Rightarrow> Inr (idx(name \<mapsto> \<lparr>vectors_size = sz, vectors_distance = metric, points = []\<rparr>))
      | FailedUntouched e \<Rightarrow> Inl e
      | FailedAfterDrop e \<Rightarrow> Inl e)"

text \<open>What is left of the index when \<^verbatim>\<open>recreate_collection\<close> raised.\<close>

definition after_failed_recreate :: "qdrant_env \<Rightarrow> string \<Rightarrow> index \<Rightarrow> index" where
  "after_failed_recreate nw name idx =
     (case recreate nw of FailedAfterDrop e \<Rightarrow> idx(name := None) | _ \<Rightarrow> idx)"

definition get_collection :: "qdrant_env \<Rightarrow> string \<Rightarrow> index \<Rightarrow> exn + collection" where
  "get_collection nw name idx =
     (case get_info nw of
        Some e \<Rightarrow> Inl e
      | None \<Rightarrow>
          (case idx name of
             None \<Rightarrow> Inl (ServiceError (''Collection '' @ name @ '' not found''))
           | Some c \<Rightarrow> Inr c))"



subsection \<open>The script: creating the collection\<close>

definition collection_name :: string where
  "collection_name = ''cosmo_challenge''"

text \<open>
  Lines 59--81. The script calls \<^verbatim>\<open>recreate_collection\<close> first, whatever the index
  holds; only when that call raises does it look at the existing collection, and then
  it exits on a different dimension or when the collection or its size cannot be read
  (both are caught by the inner \<^verbatim>\<open>except Exception as e2\<close>).
\<close>

definition create_collection_step :: "qdrant_env \<Rightarrow> nat \<Rightarrow> index \<Rightarrow> (unit outcome \<times> index) \<times> effect list" where
  "create_collection_step nw vector_dim idx =
     (let tr0 = [Print ([newline] @ ''Attempting to create or recreate collection: '' @ quote collection_name),
                 RecreateCollection collection_name vector_dim Cosine]
      in case recreate_collection nw collection_name vector_dim Cosine idx of
           Inr idx1 \<Rightarrow>
             ((Continue (), idx1),
              tr0 @ [Print (''Collection '' @ quote collection_name @ '' created successfully.'')])
         | Inl e \<Rightarrow>
             (let idx1 = after_failed_recreate nw collection_name idx;
                  tr1 = tr0 @ [Print (''Error creating Qdrant collection: '' @ str_exn e),
                               GetCollection collection_name]
              in case get_collection nw collection_name idx1 of
                   Inl e2 \<Rightarrow>
                     ((Exit, idx1), tr1 @ [Print (''Could not verify existing collection: '' @ str_exn e2)])
                 | Inr collection_info \<Rightarrow>
                     (case info_size nw collection_info of
                        Inl e2 \<Rightarrow>
                          ((Exit, idx1),
                           tr1 @ [Print (''Could not verify existing collection: '' @ str_exn e2)])
                      | Inr existing_size \<Rightarrow>
                          (if existing_size \<noteq> vector_dim
                           then ((Exit, idx1),
                                 tr1 @ [Print (''Error: Existing collection '' @ quote collection_name
                                               @ '' has dimension '' @ show_nat existing_size
                                               @ '', but data has dimension '' @ show_nat vector_dim @ ''.'')])
                           else ((Continue (), idx1),
                                 tr1 @ [Print (''Collection '' @ quote collection_name
                                               @ '' already exists with correct dimension. Will upsert data.'')])))))"

subsection \<open>The script: preparing and upserting the points\<close>




definition validation_error :: exn where
  "validation_error = ValueError ''1 validation error for PointStruct: vector''"









subsection \<open>The script as a whole\<close>





subsection \<open>Records, as the skip rule reads them\<close>










section \<open>retrieval.py\<close>

text \<open>
  The services a query talks to. \<^verbatim>\<open>openai_client.embeddings.create\<close> and
  \<^verbatim>\<open>qdrant_client.query_points\<close> either raise or answer; a scored point of the answer
  has a payload (\<^verbatim>\<open>None\<close>, or a dict) and a score.
  \<^verbatim>\<open>openai_client.chat.completions.create\<close> answers with its choices, each the
  content of a message (\<^verbatim>\<open>None\<close> when the message has none).
\<close>

record scored_point =
  sp_payload :: "(string \<times> pyval) list option"
  sp_score :: real

record services =
  embeddings_create :: "string \<Rightarrow> string \<Rightarrow> exn + embedding list"
  query_points :: "string \<Rightarrow> embedding \<Rightarrow> nat \<Rightarrow> exn + scored_point list"
  chat_create :: "string \<Rightarrow> (string \<times> string) list \<Rightarrow> exn + string option list"

definition embedding_model :: string where
  "embedding_model = ''text-embedding-3-small''"

text \<open>The dicts \<^verbatim>\<open>{"text": ..., "score": ...}\<close> that the function returns.\<close>

record retrieval_hit =
  hit_text :: pyval
  hit_score :: real

text \<open>
  The list comprehension of step 3: a hit is kept when its payload is truthy (not
  \<^verbatim>\<open>None\<close>, not the empty dict) and has the key \<^verbatim>\<open>text\<close>.
\<close>

fun extract_hits :: "scored_point list \<Rightarrow> retrieval_hit list" where
  "extract_hits [] = []"
| "extract_hits (hit # search_points) =
     (case sp_payload hit of
        None \<Rightarrow> extract_hits search_points
      | Some kvs \<Rightarrow>
          (case map_of kvs ''text'' of
             None \<Rightarrow> extract_hits search_points
           | Some t \<Rightarrow> \<lparr>hit_text = t, hit_score = sp_score hit\<rparr> # extract_hits search_points))"

definition retrieval_failed :: "effect list \<Rightarrow> exn \<Rightarrow> retrieval_hit list \<times> effect list" where
  "retrieval_failed tr e = ([], tr @ [Print (''Error during retrieval: '' @ str_exn e)])"

text \<open>
  \<^verbatim>\<open>retrieve_relevant_chunks(query_text, top_k)\<close>: the empty query returns at once;
  otherwise the query is embedded, the index is queried, and every exception of the two
  requests ends in the \<^verbatim>\<open>except Exception\<close> that prints it and returns \<^verbatim>\<open>[]\<close>.
\<close>

definition retrieve_relevant_chunks ::
  "services \<Rightarrow> string \<Rightarrow> nat \<Rightarrow> retrieval_hit list \<times> effect list" where
  "retrieve_relevant_chunks sv query_text top_k =
     (if query_text = [] then ([], [Print ''Error: Query text cannot be empty.''])
      else
        (let tr0 = [Print ([newline] @ ''Retrieving top '' @ show_nat top_k
                           @ '' relevant chunks for query: '' @ quote (take 50 query_text @ ''...'')),
                    EmbeddingsCreate query_text embedding_model]
         in case embeddings_create sv query_text embedding_model of
              Inl e \<Rightarrow> retrieval_failed tr0 e
            | Inr data \<Rightarrow>
                (case first_embedding data of
                   Inl e \<Rightarrow> retrieval_failed tr0 e
                 | Inr query_embedding \<Rightarrow>
                     (let tr1 = tr0 @ [QueryPoints collection_name query_embedding top_k]
                      in case query_points sv collection_name query_embedding top_k of
                           Inl e \<Rightarrow> retrieval_failed tr1 e
                         | Inr search_points \<Rightarrow>
                             (extract_hits search_points,
                              tr1 @ [Print (''Found '' @ show_nat (length search_points)
                                            @ '' results from Qdrant.'')])))))"

section \<open>rag\_tool.py\<close>

text \<open>\<^verbatim>\<open>"\n\n".join(texts)\<close>: TypeError when an item is not a string.\<close>

fun join_texts :: "pyval list \<Rightarrow> exn + string" where
  "join_texts [] = Inr []"
| "join_texts (PyStr s # rest) =
     (case join_texts rest of
        Inl e \<Rightarrow> Inl e
      | Inr joined \<Rightarrow> Inr (if rest = [] then s else s @ [newline, newline] @ joined))"
| "join_texts (v # rest) = Inl (TypeError ''sequence item: expected str instance'')"

text \<open>The prompt of lines 45--60, line by line as the f-string has them.\<close>

definition join_lines :: "string list \<Rightarrow> string" where
  "join_lines ls = concat (map (\<lambda>l. l @ [newline]) (butlast ls)) @ last ls"

definition prompt_of :: "string \<Rightarrow> string \<Rightarrow> string" where
  "prompt_of context_string query =
     join_lines
       [[],
        ''        You are an assistant designed to answer questions based ONLY on the provided context below.'',
        ''        Read the context carefully.'',
        ''        Answer the user'' @ [CHR 0x27] @ ''s question using only the information given in the context.'',
        ''        Do not use any external knowledge or make assumptions.'',
        ''        If the context does not contain the information needed to answer the question, state that clearly.'',
        [],
        ''        Provided Context:'',
        ''        ---'',
        ''        '' @ context_string,
        ''        ---'',
        [],
        ''        User'' @ [CHR 0x27] @ ''s Question: '' @ query,
        [],
        ''        Answer based solely on the context:'',
        ''        '']"

definition no_information :: string where
  "no_information = ''No relevant information found in the context.''"

definition error_answer :: string where
  "error_answer = ''An error occurred while generating the answer.''"

text \<open>\<^verbatim>\<open>response.choices[0].message.content.strip()\<close>.\<close>

definition first_answer :: "string option list \<Rightarrow> exn + string" where
  "first_answer choices =
     (case choices of
        [] \<Rightarrow> Inl (IndexError ''list index out of range'')
      | None # _ \<Rightarrow> Inl (AttributeError ''NoneType object has no attribute strip'')
      | Some content # _ \<Rightarrow> Inr (py_strip content))"

text \<open>The body of the \<^verbatim>\<open>try\<close> of \<^verbatim>\<open>generate_answer\<close>: the answer, or the exception raised.\<close>

definition answer_body :: "services \<Rightarrow> string \<Rightarrow> nat \<Rightarrow> (exn + string) \<times> effect list" where
  "answer_body sv query top_k =
     (let (retrieved_results, tr) = retrieve_relevant_chunks sv query top_k
      in if retrieved_results = [] then (Inr no_information, tr)
         else
           (case join_texts (map hit_text retrieved_results) of
              Inl e \<Rightarrow> (Inl e, tr)
            | Inr context_string \<Rightarrow>
                (let messages = [(''system'', ''You are a helpful assistant.''),
                                 (''user'', prompt_of context_string query)];
                     tr1 = tr @ [ChatCreate ''gpt-4o'' messages]
                 in case chat_create sv ''gpt-4o'' messages of
                      Inl e \<Rightarrow> (Inl e, tr1)
                    | Inr choices \<Rightarrow> (first_answer choices, tr1))))"

text \<open>
  \<^verbatim>\<open>generate_answer(query, top_k)\<close>: the \<^verbatim>\<open>except Exception\<close> prints the exception
  and returns the fixed error string, so the function returns a string on every path.
\<close>

definition generate_answer :: "services \<Rightarrow> string \<Rightarrow> nat \<Rightarrow> string \<times> effect list" where
  "generate_answer sv query top_k =
     (case answer_body sv query top_k of
        (Inr answer, tr) \<Rightarrow> (answer, tr)
      | (Inl e, tr) \<Rightarrow> (error_answer, tr @ [Print (''Error generating answer: '' @ str_exn e)]))"

section \<open>Properties of the embedding loop\<close>

lemma embed_loop_fst:
  "fst (embed_loop api model n i chunks embeddings tr) =
     embeddings @ map (\<lambda>(k, c). embedded api model k c) (enumerate i chunks)"
proof (induction chunks arbitrary: i embeddings tr)
  case Nil
  then show ?case by simp
next
  case (Cons c cs)
  show ?case
    by (cases "request_embedding api i c model")
       (auto simp: Cons.IH embedded_def request_embedding_def first_embedding_def
          split: sum.splits list.splits)
qed

lemma generate_embeddings_fst:
  "fst (generate_embeddings api chunks model) =
     map (\<lambda>(k, c). embedded api model k c) (enumerate 0 chunks)"
proof (cases "chunks = []")
  case True
  then show ?thesis by (simp add: generate_embeddings_def)
next
  case False
  then show ?thesis
    using embed_loop_fst [of api model "length chunks" 0 chunks "[]"]
    by (simp add: generate_embeddings_def split_beta Let_def)
qed

text \<open>
  C3. For every sequence of chunks and every behaviour of the embedding service, the
  output of \<open>generate_embeddings\<close> has the length of the input, and position \<open>i\<close> of
  the output is decided by the service's answer to request \<open>i\<close>, the request for chunk
  \<open>i\<close>, alone: the vector of that answer when the service answered with one, and
  \<open>None\<close> when the service raised or answered without data. A failure at one position
  changes nothing at the others, and the function returns whatever the failing positions
  are.
\<close>

theorem generate_embeddings_aligned:
  "length (fst (generate_embeddings api chunks model)) = length chunks \<and>
   fst (generate_embeddings api chunks model) =
     map (\<lambda>i. case api i (chunks ! i) model of
                  Inl e \<Rightarrow> None
                | Inr [] \<Rightarrow> None
                | Inr (v # others) \<Rightarrow> Some v)
       [0..<length chunks]"
proof -
  have "map (\<lambda>(k, c). embedded api model k c) (enumerate 0 chunks) =
        map (\<lambda>i. case api i (chunks ! i) model of
                     Inl e \<Rightarrow> None
                   | Inr [] \<Rightarrow> None
                   | Inr (v # others) \<Rightarrow> Some v)
          [0..<length chunks]"
    by (rule nth_equalityI) (simp_all add: nth_enumerate_eq embedded_def)
  then show ?thesis
    by (simp add: generate_embeddings_fst)
qed

subsection \<open>What the embedding stage reports\<close>

lemma is_embedding_error_simps:
  "is_embedding_error (Print (''Error generating embedding for chunk '' @ x))"
  "\<not> is_embedding_error (Print (''Generated embedding for chunk '' @ y))"
  "\<not> is_embedding_error (EmbeddingsCreate c m)"
  "\<not> is_embedding_error Sleep"
  "\<not> is_embedding_error (Print embedding_banner)"
  "\<not> is_embedding_error (Print ''Embedding generation complete.'')"
  "\<not> is_embedding_error (attempted_line n model)"
  "\<not> is_embedding_error (succeeded_line k)"
  by (simp_all add: is_embedding_error_def embedding_banner_def newline_def attempted_line_def
        succeeded_line_def)

lemma embed_loop_errors:
  "length (filter is_embedding_error (snd (embed_loop api model n i chunks embeddings tr))) =
     length (filter is_embedding_error tr)
     + length (filter (\<lambda>e. e = None) (map (\<lambda>(k, c). embedded api model k c) (enumerate i chunks)))"
proof (induction chunks arbitrary: i embeddings tr)
  case Nil
  then show ?case by simp
next
  case (Cons c cs)
  show ?case
    by (cases "request_embedding api i c model")
       (auto simp: Cons.IH embedded_def request_embedding_def first_embedding_def
          is_embedding_error_simps simp del: append.simps split: sum.splits list.splits)
qed

lemma embed_loop_snd_prefix:
  "prefix tr (snd (embed_loop api model n i chunks embeddings tr))"
proof (induction chunks arbitrary: i embeddings tr)
  case Nil
  then show ?case by simp
next
  case (Cons c cs)
  show ?case
    by (cases "request_embedding api i c model")
       (simp_all del: append.simps, (meson Cons.IH append_prefixD)+)
qed

lemma generate_embeddings_snd:
  assumes "chunks \<noteq> []"
  shows "snd (generate_embeddings api chunks model) =
           snd (embed_loop api model (length chunks) 0 chunks []
                  [Print embedding_banner, attempted_line (length chunks) model])
           @ [Print ''Embedding generation complete.'']"
  using assms by (simp add: generate_embeddings_def split_beta attempted_line_def)

lemma valid_embeddings_length:
  "length (valid_embeddings es) = length (filter (\<lambda>e. e \<noteq> None) es)"
  unfolding valid_embeddings_def
  by (induction es) (auto split: option.splits)

lemma generate_embeddings_nonempty:
  assumes "chunks \<noteq> []"
  shows "fst (generate_embeddings api chunks model) \<noteq> []"
  using assms by (cases chunks) (simp_all add: generate_embeddings_fst)

text \<open>
  The scenario of the spec: three chunks, and the second request raises.
\<close>

lemma embedding_scenario:
  "embedding_stage (\<lambda>i c m. if i = 1 then Inl (ServiceError ''timeout'') else Inr [[1, 2]])
     [''a'', ''b'', ''c''] ''m'' =
   ([Some [1, 2], None, Some [1, 2]],
    [Print embedding_banner,
     Print (''Generating embeddings for 3 chunks using model '' @ quote ''m'' @ ''...''),
     EmbeddingsCreate ''a'' ''m'',
     Print ''Generated embedding for chunk 1/3'',
     Sleep,
     EmbeddingsCreate ''b'' ''m'',
     Print ''Error generating embedding for chunk 2: timeout'',
     EmbeddingsCreate ''c'' ''m'',
     Print ''Generated embedding for chunk 3/3'',
     Sleep,
     Print ''Embedding generation complete.'',
     Print ''Successfully generated 2 embeddings.''])"
  by (simp add: embedding_stage_def generate_embeddings_def request_embedding_def first_embedding_def
        valid_embeddings_def show_nat.simps digit_char_def)

text \<open>
  C6, as the spec states it, fails on the code: in the scenario with three chunks whose
  second request raises, the output is \<open>[vector, None, vector]\<close> and the run prints
  that it was given 3 chunks and that it generated 2 embeddings, but no count of the
  failed ones: the whole output is the list below, and the failure shows only as the
  one line printed for chunk 2. The function returns the list of embeddings and
  nothing else.
\<close>

theorem embedding_stage_reports_no_failed_count:
  "embedding_stage (\<lambda>i c m. if i = 1 then Inl (ServiceError ''timeout'') else Inr [[1, 2]])
     [''a'', ''b'', ''c''] ''m'' =
   ([Some [1, 2], None, Some [1, 2]],
    [Print embedding_banner,
     Print (''Generating embeddings for 3 chunks using model '' @ quote ''m'' @ ''...''),
     EmbeddingsCreate ''a'' ''m'',
     Print ''Generated embedding for chunk 1/3'',
     Sleep,
     EmbeddingsCreate ''b'' ''m'',
     Print ''Error generating embedding for chunk 2: timeout'',
     EmbeddingsCreate ''c'' ''m'',
     Print ''Generated embedding for chunk 3/3'',
     Sleep,
     Print ''Embedding generation complete.'',
     Print ''Successfully generated 2 embeddings.'']) \<and>
   \<not> (\<exists>l. Print l \<in> set (snd (embedding_stage
                 (\<lambda>i c m. if i = 1 then Inl (ServiceError ''timeout'') else Inr [[1, 2]])
                 [''a'', ''b'', ''c''] ''m'')) \<and> sublist ''fail'' l)"
  unfolding embedding_scenario
  by (auto simp: embedding_banner_def quote_def newline_def sublist_Cons_right)

text \<open>
  C6, amended. For every non-empty sequence of chunks and every behaviour of the
  embedding service, the embedding stage prints how many chunks it attempts (the length
  of the input) and, as its last line, how many embeddings it generated (the entries of
  the output that are not \<open>None\<close>). Failures are printed one line per failed chunk:
  there are as many such lines as \<open>None\<close> entries, and no line gives their count.
\<close>

theorem embedding_stage_accounting:
  assumes "chunks \<noteq> []"
  shows "attempted_line (length chunks) model \<in> set (snd (embedding_stage api chunks model)) \<and>
         last (snd (embedding_stage api chunks model)) =
           succeeded_line (length (filter (\<lambda>e. e \<noteq> None) (fst (embedding_stage api chunks model)))) \<and>
         length (filter is_embedding_error (snd (embedding_stage api chunks model))) =
           length (filter (\<lambda>e. e = None) (fst (embedding_stage api chunks model)))"
proof -
  let ?loop = "embed_loop api model (length chunks) 0 chunks []
                 [Print embedding_banner, attempted_line (length chunks) model]"
  have fst_ne: "fst (generate_embeddings api chunks model) \<noteq> []"
    using assms by (rule generate_embeddings_nonempty)
  have stage_fst: "fst (embedding_stage api chunks model) = fst (generate_embeddings api chunks model)"
    using assms fst_ne by (simp add: embedding_stage_def split_beta)
  have stage_snd: "snd (embedding_stage api chunks model) =
      snd ?loop @ [Print ''Embedding generation complete.'',
                   succeeded_line (length (valid_embeddings (fst (generate_embeddings api chunks model))))]"
    using assms fst_ne
    by (simp add: embedding_stage_def split_beta generate_embeddings_snd succeeded_line_def)
  have "prefix [Print embedding_banner, attempted_line (length chunks) model] (snd ?loop)"
    by (rule embed_loop_snd_prefix)
  then have "attempted_line (length chunks) model \<in> set (snd ?loop)"
    by (auto simp: prefix_def)
  then have a: "attempted_line (length chunks) model \<in> set (snd (embedding_stage api chunks model))"
    by (simp add: stage_snd)
  have b: "last (snd (embedding_stage api chunks model)) =
           succeeded_line (length (filter (\<lambda>e. e \<noteq> None) (fst (embedding_stage api chunks model))))"
    by (simp add: stage_snd stage_fst valid_embeddings_length)
  have "length (filter is_embedding_error (snd ?loop)) =
        length (filter (\<lambda>e. e = None) (fst (generate_embeddings api chunks model)))"
    by (simp add: embed_loop_errors generate_embeddings_fst is_embedding_error_simps)
  then have c: "length (filter is_embedding_error (snd (embedding_stage api chunks model))) =
           length (filter (\<lambda>e. e = None) (fst (embedding_stage api chunks model)))"
    by (simp add: stage_snd stage_fst is_embedding_error_simps)
  from a b c show ?thesis by blast
qed

theorem embedding_stage_accounting_witness:
  "[''a'', ''b'', ''c''] \<noteq> [] \<and>
   attempted_line 3 ''m'' \<in> set (snd (embedding_stage
       (\<lambda>i c m. if i = 1 then Inl (ServiceError ''timeout'') else Inr [[1, 2]]) [''a'', ''b'', ''c''] ''m'')) \<and>
   last (snd (embedding_stage
       (\<lambda>i c m. if i = 1 then Inl (ServiceError ''timeout'') else Inr [[1, 2]]) [''a'', ''b'', ''c''] ''m'')) =
     succeeded_line 2 \<and>
   length (filter is_embedding_error (snd (embedding_stage
       (\<lambda>i c m. if i = 1 then Inl (ServiceError ''timeout'') else Inr [[1, 2]]) [''a'', ''b'', ''c''] ''m''))) = 1"
proof -
  let ?api = "\<lambda>(i::nat) (c::string) (m::string).
                if i = 1 then Inl (ServiceError ''timeout'') else Inr [[1, 2::real]]"
  have ne: "[''a'', ''b'', ''c''] \<noteq> []" by simp
  note th = embedding_stage_accounting [OF ne, of "''m''" ?api]
  have f: "fst (embedding_stage ?api [''a'', ''b'', ''c''] ''m'') = [Some [1, 2], None, Some [1, 2]]"
    unfolding embedding_scenario by simp
  have l: "length [''a'', ''b'', ''c''] = 3" by simp
  have k: "length (filter (\<lambda>e. e \<noteq> None) [Some [1, 2::real], None, Some [1, 2]]) = 2" by simp
  have n: "length (filter (\<lambda>e. e = None) [Some [1, 2::real], None, Some [1, 2]]) = 1" by simp
  show ?thesis
    using th ne unfolding f l k n by blast
qed

section \<open>Properties of the chunker\<close>

lemma py_strip_sublist: "sublist (py_strip s) s"
proof -
  have "suffix (dropWhile is_space (rev (dropWhile is_space s))) (rev (dropWhile is_space s))"
    by (rule suffix_dropWhile)
  then have "prefix (py_strip s) (dropWhile is_space s)"
    by (simp add: suffix_to_prefix py_strip_def)
  moreover have "suffix (dropWhile is_space s) s"
    by (rule suffix_dropWhile)
  ultimately show ?thesis
    by (meson prefix_imp_sublist suffix_imp_sublist sublist_order.order_trans)
qed

lemma re_split_nonempty: "re_split sep cur rest \<noteq> []"
  by (induction sep cur rest rule: re_split.induct) auto

lemma re_split_concat:
  "concat (case re_split sep cur rest of [] \<Rightarrow> [] | t0 # ts \<Rightarrow> t0 # map (\<lambda>t. sep @ t) ts) = cur @ rest"
proof (induction sep cur rest rule: re_split.induct)
  case (1 sep cur)
  then show ?case by simp
next
  case (2 sep cur c cs)
  show ?case
  proof (cases "sep \<noteq> [] \<and> prefix sep (c # cs)")
    case True
    then have sep: "sep \<noteq> []" and pre: "prefix sep (c # cs)" by simp_all
    have dr: "drop (length sep - 1) cs = drop (length sep) (c # cs)"
      using sep by (cases sep) simp_all
    from pre have whole: "c # cs = sep @ drop (length sep) (c # cs)"
      by (metis append_eq_conv_conj prefixE)
    obtain t0 ts where r: "re_split sep [] (drop (length sep - 1) cs) = t0 # ts"
      using re_split_nonempty by (cases "re_split sep [] (drop (length sep - 1) cs)") auto
    have e1: "concat (t0 # map (\<lambda>t. sep @ t) ts) = drop (length sep - 1) cs"
      using "2.IH"(1) [OF True] unfolding r by simp
    have "concat (map (\<lambda>t. sep @ t) (t0 # ts)) = sep @ concat (t0 # map (\<lambda>t. sep @ t) ts)"
      by simp
    also have "\<dots> = sep @ drop (length sep - 1) cs"
      by (simp only: e1)
    also have "\<dots> = sep @ drop (length sep) (c # cs)"
      by (simp only: dr)
    also have "\<dots> = c # cs"
      by (rule whole [symmetric])
    finally have "concat (map (\<lambda>t. sep @ t) (t0 # ts)) = c # cs" .
    then show ?thesis
      using True r by simp
  next
    case False
    then show ?thesis
      using "2.IH"(2) [OF False] by auto
  qed
qed

lemma concat_filter_nonempty: "concat (filter (\<lambda>s. s \<noteq> []) xs) = concat xs"
  by (induction xs) auto

lemma concat_singletons: "concat (map (\<lambda>c. [c]) t) = t"
  by (induction t) auto

lemma split_text_with_regex_concat: "concat (split_text_with_regex t sep) = t"
proof (cases "sep = []")
  case True
  then show ?thesis
    by (simp add: split_text_with_regex_def concat_filter_nonempty concat_singletons)
next
  case False
  then show ?thesis
    using re_split_concat [of sep "[]" t]
    by (simp add: split_text_with_regex_def concat_filter_nonempty)
qed

lemma pop_docs_suffix: "suffix (fst (pop_docs cs co len cur tot)) cur"
  by (induction cs co len cur tot rule: pop_docs.induct) (auto simp: suffix_ConsI)

lemma sublist_concat_suffix:
  assumes "suffix xs ys"
  shows "sublist (concat (xs @ zs)) (concat (ys @ zs))"
proof -
  from assms obtain ps where "ys = ps @ xs" by (auto simp: suffix_def)
  then show ?thesis by simp
qed

lemma join_docs_sublist:
  assumes "join_docs cur = Some d"
  shows "sublist d (concat cur)"
  using assms py_strip_sublist [of "concat cur"]
  by (auto simp: join_docs_def Let_def split: if_splits)

lemma append_doc_set:
  assumes "c \<in> set (append_doc docs (join_docs cur))"
  shows "c \<in> set docs \<or> sublist c (concat cur)"
  using assms by (cases "join_docs cur") (auto simp: append_doc_def dest: join_docs_sublist)

lemma merge_loop_sublist:
  assumes "c \<in> set (merge_loop cs co splits docs cur tot)"
  shows "c \<in> set docs \<or> sublist c (concat (cur @ splits))"
  using assms
proof (induction splits arbitrary: docs cur tot)
  case Nil
  then show ?case using append_doc_set by auto
next
  case (Cons d splits)
  show ?case
  proof (cases "tot + int (length d) > int cs \<and> cur \<noteq> []")
    case True
    obtain cur1 tot1 where p: "pop_docs cs co (length d) cur tot = (cur1, tot1)"
      by (cases "pop_docs cs co (length d) cur tot")
    have suf: "suffix cur1 cur"
      using pop_docs_suffix [of cs co "length d" cur tot] p by simp
    from Cons.prems True p
    have "c \<in> set (merge_loop cs co splits (append_doc docs (join_docs cur)) (cur1 @ [d])
                     (tot1 + int (length d)))"
      by (simp add: Let_def)
    from Cons.IH [OF this]
    consider "c \<in> set (append_doc docs (join_docs cur))" | "sublist c (concat ((cur1 @ [d]) @ splits))"
      by blast
    then show ?thesis
    proof cases
      case 1
      then have "c \<in> set docs \<or> sublist c (concat cur)" by (rule append_doc_set)
      then show ?thesis
        by (auto intro: sublist_order.order_trans [OF _ sublist_append_rightI])
    next
      case 2
      have "sublist (concat (cur1 @ (d # splits))) (concat (cur @ (d # splits)))"
        using suf by (rule sublist_concat_suffix)
      with 2 show ?thesis
        by (auto intro: sublist_order.order_trans)
    qed
  next
    case False
    with Cons.prems
    have "c \<in> set (merge_loop cs co splits docs (cur @ [d]) (tot + int (length d)))"
      by auto
    from Cons.IH [OF this] show ?thesis by simp
  qed
qed

lemma merge_splits_sublist:
  assumes "c \<in> set (merge_splits cs co splits)"
  shows "sublist c (concat splits)"
  using merge_loop_sublist [of c cs co splits "[]" "[]" 0] assms
  by (simp add: merge_splits_def)

lemma flush_good_set:
  assumes "c \<in> set (flush_good cs co good final)"
  shows "c \<in> set final \<or> sublist c (concat good)"
  using assms by (auto simp: flush_good_def dest: merge_splits_sublist split: if_splits)

lemma split_sublist:
  "(\<forall>c \<in> set (split_text_rec cs co separators t). sublist c t)"
  "(\<forall>c \<in> set (split_loop cs co new_separators splits good final).
       c \<in> set final \<or> sublist c (concat (good @ splits)))"
proof (induction cs co separators t and cs co new_separators splits good final
       rule: split_text_rec_split_loop.induct)
  case (1 chunk_size chunk_overlap separators t)
  then show ?case
    by (simp add: split_text_with_regex_concat)
next
  case (2 chunk_size chunk_overlap new_separators good final_chunks)
  then show ?case
    by (auto dest: flush_good_set)
next
  case (3 chunk_size chunk_overlap new_separators s splits good final_chunks)
  show ?case
  proof (intro ballI)
    fix c
    assume c: "c \<in> set (split_loop chunk_size chunk_overlap new_separators (s # splits) good final_chunks)"
    have up: "\<And>x. sublist x (concat good) \<Longrightarrow> sublist x (concat (good @ s # splits))"
      by (metis concat_append sublist_append_rightI sublist_order.order_trans)
    have us: "\<And>x. sublist x s \<Longrightarrow> sublist x (concat (good @ s # splits))"
      by (metis concat.simps(2) concat_append sublist_appendI sublist_order.order_trans)
    have ur: "\<And>x. sublist x (concat splits) \<Longrightarrow> sublist x (concat (good @ s # splits))"
      by (metis append.assoc concat.simps(2) concat_append sublist_append_leftI sublist_order.order_trans)
    show "c \<in> set final_chunks \<or> sublist c (concat (good @ s # splits))"
    proof (cases "length s < chunk_size")
      case True
      with c "3.IH"(1) [OF True] show ?thesis by auto
    next
      case False
      show ?thesis
      proof (cases "new_separators = []")
        case True
        with c False "3.IH"(2) [OF False True]
        have "c \<in> set (flush_good chunk_size chunk_overlap good final_chunks @ [s]) \<or> sublist c (concat splits)"
          by auto
        then show ?thesis
          using up us ur by (auto dest!: flush_good_set)
      next
        case ne: False
        with c False "3.IH"(4) [OF False ne]
        have "c \<in> set (flush_good chunk_size chunk_overlap good final_chunks
                        @ split_text_rec chunk_size chunk_overlap new_separators s)
              \<or> sublist c (concat splits)"
          by auto
        then show ?thesis
          using up us ur "3.IH"(3) [OF False ne] by (auto dest!: flush_good_set)
      qed
    qed
  qed
qed


text \<open>
  In \<open>pop_docs\<close> the running total stays the summed length of the pieces that are
  left, so the loop's condition is false once no piece is left.
\<close>

lemma pop_docs_total:
  assumes "tot = int (length (concat cur))"
  shows "snd (pop_docs cs co len cur tot) = int (length (concat (fst (pop_docs cs co len cur tot))))"
  using assms
  by (induction cs co len cur tot rule: pop_docs.induct) auto

lemma sublist_offset:
  assumes "sublist c t"
  shows "\<exists>start_offset. take (length c) (drop start_offset t) = c"
proof -
  from assms obtain ps ss where "t = ps @ c @ ss" by (auto simp: sublist_def)
  then have "take (length c) (drop (length ps) t) = c" by simp
  then show ?thesis ..
qed

lemma chunk_text_ABAB: "fst (chunk_text ''ABAB'' 2 0) = Inr [''AB'', ''AB'']"
  by code_simp

text \<open>
  C5, as the spec states it, fails on the code: \<open>chunk_text\<close> returns the strings of
  \<^verbatim>\<open>split_text\<close> and nothing else (\<^verbatim>\<open>add_start_index\<close> only affects the documents
  that \<^verbatim>\<open>create_documents\<close> builds, which the function does not call). For the text
  \<^verbatim>\<open>ABAB\<close> with size 2 and overlap 0 the two chunks are the text at the offsets 0
  and 2, and they are the same value: nothing read from a chunk can give 0 for the first
  and 2 for the second.
\<close>

theorem chunk_text_carries_no_offset:
  "fst (chunk_text ''ABAB'' 2 0) = Inr [take 2 (drop 0 ''ABAB''), take 2 (drop 2 ''ABAB'')] \<and>
   \<not> (\<exists>start_offset :: string \<Rightarrow> nat.
        map start_offset (case fst (chunk_text ''ABAB'' 2 0) of Inr chunks \<Rightarrow> chunks | Inl e \<Rightarrow> []) = [0, 2])"
  unfolding chunk_text_ABAB by auto

text \<open>
  C5, amended. For every input text and every size and overlap that the splitter
  accepts (the overlap not larger than the size), \<open>chunk_text\<close> returns a list of
  strings, and every chunk is text of the original: it is found there at some starting
  offset. The chunk itself is the text only; the offset is not part of what is returned.
\<close>

theorem chunk_text_chunks_are_substrings:
  assumes "overlap \<le> sz"
  shows "\<exists>chunks. fst (chunk_text t sz overlap) = Inr chunks \<and>
           (\<forall>c \<in> set chunks. \<exists>start_offset. take (length c) (drop start_offset t) = c)"
proof (cases "t = []")
  case True
  then show ?thesis by (simp add: chunk_text_def)
next
  case False
  with assms have "fst (chunk_text t sz overlap) = Inr (split_text sz overlap t)"
    by (simp add: chunk_text_def Let_def)
  moreover have "\<forall>c \<in> set (split_text sz overlap t). \<exists>start_offset. take (length c) (drop start_offset t) = c"
    using split_sublist(1) [of sz overlap default_separators t]
    by (auto simp: split_text_def intro: sublist_offset)
  ultimately show ?thesis by blast
qed

theorem chunk_text_chunks_are_substrings_witness:
  "(0::nat) \<le> 2 \<and> fst (chunk_text ''ABAB'' 2 0) = Inr [''AB'', ''AB''] \<and>
   (\<exists>start_offset. take (length ''AB'') (drop start_offset ''ABAB'') = ''AB'')"
proof -
  have le: "(0::nat) \<le> 2" by simp
  from chunk_text_chunks_are_substrings [OF le, of "''ABAB''"]
  obtain chunks where
    c: "fst (chunk_text ''ABAB'' 2 0) = Inr chunks" and
    s: "\<forall>c \<in> set chunks. \<exists>start_offset. take (length c) (drop start_offset ''ABAB'') = c"
    by blast
  from c have "chunks = [''AB'', ''AB'']"
    unfolding chunk_text_ABAB by simp
  with s have "\<exists>start_offset. take (length ''AB'') (drop start_offset ''ABAB'') = ''AB''"
    by simp
  with le chunk_text_ABAB show ?thesis by blast
qed

text \<open>
  C7. Chunking the string \<^verbatim>\<open>ABCDEFGHIJ\<close> with size 4 and overlap 2 yields exactly
  the four chunks \<^verbatim>\<open>ABCD\<close>, \<^verbatim>\<open>CDEF\<close>, \<^verbatim>\<open>EFGH\<close>, \<^verbatim>\<open>GHIJ\<close>, in that order,
  and these are the pieces of four characters that start at the offsets 0, 2, 4 and 6
  of the text.
\<close>

theorem chunk_text_literal_scenario:
  "fst (chunk_text ''ABCDEFGHIJ'' 4 2) = Inr [''ABCD'', ''CDEF'', ''EFGH'', ''GHIJ''] \<and>
   map (\<lambda>start_offset. take 4 (drop start_offset ''ABCDEFGHIJ'')) [0, 2, 4, 6] =
     [''ABCD'', ''CDEF'', ''EFGH'', ''GHIJ'']"
  by code_simp

section \<open>Properties of the cache load\<close>









section \<open>Properties of the index set-up\<close>

text \<open>
  An index that already holds the collection with dimension 3 and one point, and an
  environment in which every request succeeds.
\<close>

lemma recreate_existing_collection:
  "create_collection_step
     \<lparr>qdrant_host = ''localhost'', qdrant_port = 6333, connect = None, recreate = Recreated,
      get_info = None, info_size = (\<lambda>c. Inr (vectors_size c)), upsert = (\<lambda>k. None),
      count_points = None, other_vectors = (\<lambda>v. Some validation_error)\<rparr>
     2
     (Map.empty(collection_name \<mapsto>
        \<lparr>vectors_size = 3, vectors_distance = Cosine,
         points = [\<lparr>point_id = ''p0'', vector = PyList [PyFloat 1, PyFloat 2, PyFloat 3],
                   payload = [(''text'', PyStr ''unrelated'')]\<rparr>]\<rparr>)) =
   ((Continue (),
     Map.empty(collection_name \<mapsto> \<lparr>vectors_size = 2, vectors_distance = Cosine, points = []\<rparr>)),
    [Print ([newline] @ ''Attempting to create or recreate collection: '' @ quote collection_name),
     RecreateCollection collection_name 2 Cosine,
     Print (''Collection '' @ quote collection_name @ '' created successfully.'')])"
  by (simp add: create_collection_step_def recreate_collection_def)



section \<open>Properties of the point preparation\<close>
















section \<open>Properties of retrieval\<close>

text \<open>
  C9. The empty query is rejected at once: the function prints the diagnostic
  \<^verbatim>\<open>Error: Query text cannot be empty.\<close> and returns the empty list, and that line is
  everything the call does: no embedding request and no index query is issued, whatever
  the services would have answered.
\<close>

theorem retrieve_empty_query:
  "retrieve_relevant_chunks sv [] top_k = ([], [Print ''Error: Query text cannot be empty.''])"
  by (simp add: retrieve_relevant_chunks_def)

text \<open>For contrast: a non-empty query always sends its embedding request.\<close>

lemma retrieve_nonempty_requests:
  assumes "query_text \<noteq> []"
  shows "EmbeddingsCreate query_text embedding_model \<in> set (snd (retrieve_relevant_chunks sv query_text top_k))"
  using assms
  by (simp add: retrieve_relevant_chunks_def retrieval_failed_def Let_def
      split: sum.splits)

text \<open>
  C2, as the spec states it, fails on the code: when the index cannot be reached (the
  query request raises), \<open>retrieve_relevant_chunks\<close> catches the exception, prints it
  and returns the empty list, the value it also returns for a reachable index without
  candidates. The function's docstring says so: it returns \<^verbatim>\<open>an empty list if an error
  occurs\<close>.
\<close>

theorem retrieve_unreachable_returns_empty:
  "retrieve_relevant_chunks
     \<lparr>embeddings_create = (\<lambda>t m. Inr [[1]]),
      query_points = (\<lambda>c q k. Inl (ServiceError ''connection refused'')),
      chat_create = (\<lambda>m ms. Inr [])\<rparr> ''q'' 3 =
   ([], [Print ([newline] @ ''Retrieving top 3 relevant chunks for query: '' @ quote ''q...''),
         EmbeddingsCreate ''q'' embedding_model,
         QueryPoints collection_name [1] 3,
         Print ''Error during retrieval: connection refused''])"
  by (simp add: retrieve_relevant_chunks_def retrieval_failed_def first_embedding_def
        show_nat.simps digit_char_def)

text \<open>
  C2, amended. For every non-empty query the function returns a list and never an
  exception. The list is empty when the embedding request raises, when its answer has no
  data, and when the index request raises; in these cases the last printed line is
  \<^verbatim>\<open>Error during retrieval: ...\<close>. When both requests succeed the list holds the hits
  of the answer that have a text (none for an answer without points), and the last line
  is \<^verbatim>\<open>Found n results from Qdrant.\<close> A caller tells "no results" from "retrieval
  failed" by the printed line only, not by the returned value.
\<close>

theorem retrieve_empty_or_failed:
  assumes "query_text \<noteq> []"
  shows
    "fst (retrieve_relevant_chunks sv query_text top_k) =
       (case embeddings_create sv query_text embedding_model of
          Inl e \<Rightarrow> []
        | Inr [] \<Rightarrow> []
        | Inr (q # others) \<Rightarrow>
            (case query_points sv collection_name q top_k of
               Inl e \<Rightarrow> []
             | Inr search_points \<Rightarrow> extract_hits search_points)) \<and>
     last (snd (retrieve_relevant_chunks sv query_text top_k)) =
       (case embeddings_create sv query_text embedding_model of
          Inl e \<Rightarrow> Print (''Error during retrieval: '' @ str_exn e)
        | Inr [] \<Rightarrow> Print ''Error during retrieval: list index out of range''
        | Inr (q # others) \<Rightarrow>
            (case query_points sv collection_name q top_k of
               Inl e \<Rightarrow> Print (''Error during retrieval: '' @ str_exn e)
             | Inr search_points \<Rightarrow>
                 Print (''Found '' @ show_nat (length search_points) @ '' results from Qdrant.'')))"
  using assms
  by (simp add: retrieve_relevant_chunks_def retrieval_failed_def first_embedding_def Let_def
      split: sum.splits list.splits)

theorem retrieve_empty_or_failed_witness:
  "''q'' \<noteq> [] \<and>
   fst (retrieve_relevant_chunks
          \<lparr>embeddings_create = (\<lambda>t m. Inr [[1]]),
           query_points = (\<lambda>c q k. Inl (ServiceError ''connection refused'')),
           chat_create = (\<lambda>m ms. Inr [])\<rparr> ''q'' 3) = [] \<and>
   last (snd (retrieve_relevant_chunks
          \<lparr>embeddings_create = (\<lambda>t m. Inr [[1]]),
           query_points = (\<lambda>c q k. Inl (ServiceError ''connection refused'')),
           chat_create = (\<lambda>m ms. Inr [])\<rparr> ''q'' 3)) =
     Print ''Error during retrieval: connection refused'' \<and>
   fst (retrieve_relevant_chunks
          \<lparr>embeddings_create = (\<lambda>t m. Inr [[1]]),
           query_points = (\<lambda>c q k. Inr []),
           chat_create = (\<lambda>m ms. Inr [])\<rparr> ''q'' 3) = [] \<and>
   last (snd (retrieve_relevant_chunks
          \<lparr>embeddings_create = (\<lambda>t m. Inr [[1]]),
           query_points = (\<lambda>c q k. Inr []),
           chat_create = (\<lambda>m ms. Inr [])\<rparr> ''q'' 3)) =
     Print ''Found 0 results from Qdrant.''"
proof -
  have ne: "''q'' \<noteq> []" by simp
  show ?thesis
    using ne
      retrieve_empty_or_failed [OF ne, of
        "\<lparr>embeddings_create = (\<lambda>t m. Inr [[1]]),
          query_points = (\<lambda>c q k. Inl (ServiceError ''connection refused'')),
          chat_create = (\<lambda>m ms. Inr [])\<rparr>" 3]
      retrieve_empty_or_failed [OF ne, of
        "\<lparr>embeddings_create = (\<lambda>t m. Inr [[1]]),
          query_points = (\<lambda>c q k. Inr []),
          chat_create = (\<lambda>m ms. Inr [])\<rparr>" 3]
    by (simp add: show_nat.simps digit_char_def)
qed

section \<open>Properties of the answer\<close>

text \<open>
  C10. \<open>generate_answer\<close> returns a string for every query and every behaviour of the
  services; no exception leaves it. When retrieval yields no chunks the string is exactly
  \<^verbatim>\<open>No relevant information found in the context.\<close> When a step of its own raises
  (joining the texts, the chat request, reading the first choice or its content), the
  string is exactly \<^verbatim>\<open>An error occurred while generating the answer.\<close> Otherwise it
  is the stripped content of the first choice.
\<close>

theorem generate_answer_total:
  "fst (generate_answer sv query top_k) =
     (let retrieved_results = fst (retrieve_relevant_chunks sv query top_k)
      in if retrieved_results = [] then ''No relevant information found in the context.''
         else
           (case join_texts (map hit_text retrieved_results) of
              Inl e \<Rightarrow> ''An error occurred while generating the answer.''
            | Inr context_string \<Rightarrow>
                (case chat_create sv ''gpt-4o''
                        [(''system'', ''You are a helpful assistant.''),
                         (''user'', prompt_of context_string query)] of
                   Inl e \<Rightarrow> ''An error occurred while generating the answer.''
                 | Inr [] \<Rightarrow> ''An error occurred while generating the answer.''
                 | Inr (None # others) \<Rightarrow> ''An error occurred while generating the answer.''
                 | Inr (Some content # others) \<Rightarrow> py_strip content)))"
  by (simp add: generate_answer_def answer_body_def split_beta Let_def first_answer_def
        no_information_def error_answer_def
      split: sum.splits list.splits option.splits)

end
